theory Spec2Isabelle
  imports Complex_Main
begin

section \<open>Python values, errors and string built-ins\<close>

text \<open>
  The development embeds \<^verbatim>\<open>src/main.py\<close>: the conversation memory, the dialogue-id
  extraction, the response parser, the answer normaliser and matcher, and the scoring
  loop of the evaluator.

  A Python \<^verbatim>\<open>str\<close> is a \<^typ>\<open>string\<close> whose characters are read as the code points
  0 to 255, so the built-ins below are the restrictions of Python's Unicode tables to
  that range. Every exception the embedded code can raise is a value of \<open>py_error\<close>,
  carrying the message of the exception where the source builds one.
\<close>

datatype py_error =
    ValueError string
  | IndexError
  | ZeroDivisionError
  | JSONParsingError string

text \<open>\<^verbatim>\<open>str.isspace\<close> on one character: the white space that \<^verbatim>\<open>str.strip()\<close> removes.\<close>

definition py_isspace :: "char \<Rightarrow> bool" where
  "py_isspace c = (c \<in> set [CHR 0x09, CHR 0x0A, CHR 0x0B, CHR 0x0C, CHR 0x0D,
      CHR 0x1C, CHR 0x1D, CHR 0x1E, CHR 0x1F, CHR 0x20, CHR 0x85, CHR 0xA0])"

definition py_strip :: "string \<Rightarrow> string" where
  "py_strip s = rev (dropWhile py_isspace (rev (dropWhile py_isspace s)))"

text \<open>\<^verbatim>\<open>str.lower\<close>: the upper-case letters below code point 256 and their images.\<close>

definition upper_chars :: "char list" where
  "upper_chars = ''ABCDEFGHIJKLMNOPQRSTUVWXYZ'' @
     [CHR 0xC0, CHR 0xC1, CHR 0xC2, CHR 0xC3, CHR 0xC4, CHR 0xC5, CHR 0xC6, CHR 0xC7,
      CHR 0xC8, CHR 0xC9, CHR 0xCA, CHR 0xCB, CHR 0xCC, CHR 0xCD, CHR 0xCE, CHR 0xCF,
      CHR 0xD0, CHR 0xD1, CHR 0xD2, CHR 0xD3, CHR 0xD4, CHR 0xD5, CHR 0xD6,
      CHR 0xD8, CHR 0xD9, CHR 0xDA, CHR 0xDB, CHR 0xDC, CHR 0xDD, CHR 0xDE]"

definition lower_chars :: "char list" where
  "lower_chars = ''abcdefghijklmnopqrstuvwxyz'' @
     [CHR 0xE0, CHR 0xE1, CHR 0xE2, CHR 0xE3, CHR 0xE4, CHR 0xE5, CHR 0xE6, CHR 0xE7,
      CHR 0xE8, CHR 0xE9, CHR 0xEA, CHR 0xEB, CHR 0xEC, CHR 0xED, CHR 0xEE, CHR 0xEF,
      CHR 0xF0, CHR 0xF1, CHR 0xF2, CHR 0xF3, CHR 0xF4, CHR 0xF5, CHR 0xF6,
      CHR 0xF8, CHR 0xF9, CHR 0xFA, CHR 0xFB, CHR 0xFC, CHR 0xFD, CHR 0xFE]"

definition py_lower_char :: "char \<Rightarrow> char" where
  "py_lower_char c = (case map_of (zip upper_chars lower_chars) c of Some l \<Rightarrow> l | None \<Rightarrow> c)"

definition py_lower :: "string \<Rightarrow> string" where
  "py_lower s = map py_lower_char s"

text \<open>\<^verbatim>\<open>s.replace(c, "")\<close> for a one-character \<open>c\<close>: every occurrence goes.\<close>

definition py_remove :: "char \<Rightarrow> string \<Rightarrow> string" where
  "py_remove c s = filter (\<lambda>x. x \<noteq> c) s"


definition py_endswith :: "string \<Rightarrow> string \<Rightarrow> bool" where
  "py_endswith s p = (length p \<le> length s \<and> drop (length s - length p) s = p)"


definition slice_to_minus :: "nat \<Rightarrow> string \<Rightarrow> string" where
  "slice_to_minus n s = take (length s - n) s"

text \<open>
  \<^verbatim>\<open>s.split(sep)\<close> for a one-character separator: one segment more than there are
  separators, so the result is never empty. \<^verbatim>\<open>sep.join(parts)\<close> is its inverse.
\<close>

fun py_split :: "char \<Rightarrow> string \<Rightarrow> string list" where
  "py_split sep [] = [[]]"
| "py_split sep (c # cs) =
     (if c = sep then [] # py_split sep cs
      else (case py_split sep cs of
              [] \<Rightarrow> [[c]]
            | w # ws \<Rightarrow> (c # w) # ws))"

fun py_join :: "string \<Rightarrow> string list \<Rightarrow> string" where
  "py_join sep [] = []"
| "py_join sep [x] = x"
| "py_join sep (x # y # zs) = x @ sep @ py_join sep (y # zs)"

text \<open>
  \<^verbatim>\<open>str.isdigit\<close>: a non-empty string of digit characters. Below code point 256
  Python counts the superscripts 0xB2, 0xB3 and 0xB9 as digits, besides 0 to 9.
\<close>

definition py_isdigit_char :: "char \<Rightarrow> bool" where
  "py_isdigit_char c = (c \<in> set (''0123456789'' @ [CHR 0xB2, CHR 0xB3, CHR 0xB9]))"

definition py_isdigit :: "string \<Rightarrow> bool" where
  "py_isdigit s = (s \<noteq> [] \<and> list_all py_isdigit_char s)"

text \<open>\<^verbatim>\<open>parts[-1]\<close> raises IndexError on an empty list; \<^verbatim>\<open>parts[:-1]\<close> never raises.\<close>

definition py_last :: "'a list \<Rightarrow> py_error + 'a" where
  "py_last xs = (case xs of [] \<Rightarrow> Inl IndexError | _ # _ \<Rightarrow> Inr (last xs))"

section \<open>DialogueProcessor.extract\_dialogue\_id\<close>

definition extract_dialogue_id :: "string \<Rightarrow> py_error + string" where
  "extract_dialogue_id full_id =
     (let parts = py_split CHR ''_'' full_id in
      case py_last parts of
        Inl e \<Rightarrow> Inl e
      | Inr l \<Rightarrow> if py_isdigit l then Inr (py_join ''_'' (butlast parts)) else Inr full_id)"

section \<open>ConversationMemory\<close>

text \<open>
  A message is the dict \<^verbatim>\<open>{"role": ..., "content": ...}\<close>. The class never changes a
  message dict after building it, so a message is a value. The list objects are not:
  \<^verbatim>\<open>_messages\<close> is appended to and cleared in place, and
  \<^verbatim>\<open>get_conversation_history\<close> builds new lists. They live in a store of list objects
  addressed by their index; allocation appends to the store, so a new address is fresh.
\<close>

record message =
  role :: string
  content :: string

type_synonym heap = "message list list"

definition alloc :: "message list \<Rightarrow> heap \<Rightarrow> nat \<times> heap" where
  "alloc v h = (length h, h @ [v])"

text \<open>\<^verbatim>\<open>a.append(x)\<close> and \<^verbatim>\<open>a.clear()\<close> on the list object at address \<open>a\<close>.\<close>

definition list_append :: "nat \<Rightarrow> message \<Rightarrow> heap \<Rightarrow> heap" where
  "list_append a x h = h[a := h ! a @ [x]]"

definition list_clear :: "nat \<Rightarrow> heap \<Rightarrow> heap" where
  "list_clear a h = h[a := []]"

text \<open>
  The object: \<open>messages\<close> is the address held by \<^verbatim>\<open>self._messages\<close>, \<open>system_prompt\<close>
  the value of \<^verbatim>\<open>self._system_prompt\<close> (\<open>None\<close> for Python's None). A state is the
  store together with the object.
\<close>

record conversation_memory =
  messages :: nat
  system_prompt :: "string option"

type_synonym mem_state = "heap \<times> conversation_memory"

text \<open>\<^verbatim>\<open>__init__(system_prompt)\<close>, in a store that may hold other lists already.\<close>

definition memory_init :: "string option \<Rightarrow> heap \<Rightarrow> mem_state" where
  "memory_init sp h = (let (a, h') = alloc [] h in (h', \<lparr>messages = a, system_prompt = sp\<rparr>))"

definition set_system_prompt :: "string \<Rightarrow> mem_state \<Rightarrow> mem_state" where
  "set_system_prompt prompt s = (case s of (h, m) \<Rightarrow> (h, m\<lparr>system_prompt := Some prompt\<rparr>))"

definition quoted :: "string \<Rightarrow> string" where
  "quoted s = [CHR 0x27] @ s @ [CHR 0x27]"

definition invalid_role_message :: "string \<Rightarrow> string" where
  "invalid_role_message r = ''Invalid role: '' @ r @ ''. Must be '' @ quoted ''user'' @ '', ''
     @ quoted ''assistant'' @ '', or '' @ quoted ''system''"

text \<open>
  \<open>add_message\<close> returns the outcome and the state after the call: the raise comes
  before the append, so the state after a failed call is the state before it.
\<close>

definition add_message :: "string \<Rightarrow> string \<Rightarrow> mem_state \<Rightarrow> (py_error + unit) \<times> mem_state" where
  "add_message r c s = (case s of (h, m) \<Rightarrow>
     if r \<notin> set [''user'', ''assistant'', ''system'']
     then (Inl (ValueError (invalid_role_message r)), (h, m))
     else (Inr (), (list_append (messages m) \<lparr>role = r, content = c\<rparr> h, m)))"

definition add_user_message :: "string \<Rightarrow> mem_state \<Rightarrow> (py_error + unit) \<times> mem_state" where
  "add_user_message msg s = add_message ''user'' msg s"

definition add_assistant_message :: "string \<Rightarrow> mem_state \<Rightarrow> (py_error + unit) \<times> mem_state" where
  "add_assistant_message msg s = add_message ''assistant'' msg s"

text \<open>
  \<open>get_conversation_history\<close> returns the address of the list it builds.
  \<^verbatim>\<open>history = []\<close> allocates, \<^verbatim>\<open>if self._system_prompt:\<close> is false for None and
  for the empty string, and \<^verbatim>\<open>history + self._messages\<close> allocates the result.
\<close>

definition get_conversation_history :: "mem_state \<Rightarrow> nat \<times> mem_state" where
  "get_conversation_history s = (case s of (h, m) \<Rightarrow>
     let (history, h1) = alloc [] h;
         h2 = (case system_prompt m of
                 None \<Rightarrow> h1
               | Some p \<Rightarrow> if p \<noteq> [] then list_append history \<lparr>role = ''system'', content = p\<rparr> h1
                          else h1);
         (res, h3) = alloc (h2 ! history @ h2 ! messages m) h2
     in (res, (h3, m)))"

definition clear :: "mem_state \<Rightarrow> mem_state" where
  "clear s = (case s of (h, m) \<Rightarrow> (list_clear (messages m) h, m\<lparr>system_prompt := None\<rparr>))"

text \<open>\<^verbatim>\<open>__len__\<close>.\<close>

definition memory_len :: "mem_state \<Rightarrow> nat" where
  "memory_len s = (case s of (h, m) \<Rightarrow> length (h ! messages m))"

text \<open>
  Sequences of calls on one memory. A call of \<open>add_message\<close> that raises leaves the
  state as it was, and the caller that catches the error goes on with the same object;
  the results of the calls are dropped, the store keeps the lists they built.
\<close>

datatype mem_op =
    SetSystemPrompt string
  | AddMessage string string
  | AddUserMessage string
  | AddAssistantMessage string
  | GetConversationHistory
  | Clear
  | Len

fun exec_op :: "mem_op \<Rightarrow> mem_state \<Rightarrow> mem_state" where
  "exec_op (SetSystemPrompt p) s = set_system_prompt p s"
| "exec_op (AddMessage r c) s = snd (add_message r c s)"
| "exec_op (AddUserMessage c) s = snd (add_user_message c s)"
| "exec_op (AddAssistantMessage c) s = snd (add_assistant_message c s)"
| "exec_op GetConversationHistory s = snd (get_conversation_history s)"
| "exec_op Clear s = clear s"
| "exec_op Len s = s"

definition run_ops :: "mem_op list \<Rightarrow> mem_state \<Rightarrow> mem_state" where
  "run_ops ops s = fold exec_op ops s"

text \<open>
  What a caller reads: the list \<open>get_conversation_history\<close> returns, and the list
  behind \<^verbatim>\<open>_messages\<close>. A state is valid when \<^verbatim>\<open>_messages\<close> is an address of the store.
\<close>

definition history_of :: "mem_state \<Rightarrow> message list" where
  "history_of s = (case get_conversation_history s of (a, (h, m)) \<Rightarrow> h ! a)"

definition contents :: "mem_state \<Rightarrow> message list" where
  "contents s = (case s of (h, m) \<Rightarrow> h ! messages m)"

definition valid :: "mem_state \<Rightarrow> bool" where
  "valid s = (case s of (h, m) \<Rightarrow> messages m < length h)"

text \<open>
  The calls as the claims count them: the message a call appends (none for a call that
  appends nothing), the calls since the last \<open>Clear\<close>, and the prompt in force after
  a sequence of calls.
\<close>

fun appended_by :: "mem_op \<Rightarrow> message list" where
  "appended_by (AddMessage r c) =
     (if r \<in> set [''user'', ''assistant'', ''system''] then [\<lparr>role = r, content = c\<rparr>] else [])"
| "appended_by (AddUserMessage c) = [\<lparr>role = ''user'', content = c\<rparr>]"
| "appended_by (AddAssistantMessage c) = [\<lparr>role = ''assistant'', content = c\<rparr>]"
| "appended_by _ = []"

definition appended :: "mem_op list \<Rightarrow> message list" where
  "appended ops = concat (map appended_by ops)"

fun appends :: "mem_op \<Rightarrow> bool" where
  "appends (AddMessage r c) = (r \<in> set [''user'', ''assistant'', ''system''])"
| "appends (AddUserMessage c) = True"
| "appends (AddAssistantMessage c) = True"
| "appends _ = False"

fun appends_non_system :: "mem_op \<Rightarrow> bool" where
  "appends_non_system (AddMessage r c) = (r \<in> set [''user'', ''assistant''])"
| "appends_non_system (AddUserMessage c) = True"
| "appends_non_system (AddAssistantMessage c) = True"
| "appends_non_system _ = False"

definition since_clear :: "mem_op list \<Rightarrow> mem_op list" where
  "since_clear ops = rev (takeWhile (\<lambda>op. op \<noteq> Clear) (rev ops))"

fun prompt_step :: "mem_op \<Rightarrow> string option \<Rightarrow> string option" where
  "prompt_step (SetSystemPrompt p) sp = Some p"
| "prompt_step Clear sp = None"
| "prompt_step _ sp = sp"

definition prompt_after :: "string option \<Rightarrow> mem_op list \<Rightarrow> string option" where
  "prompt_after sp ops = fold prompt_step ops sp"


section \<open>Answer comparison: normalize\_answer and answers\_match\<close>

text \<open>
  The arguments are \<^verbatim>\<open>Any\<close>; the function tests them against None and otherwise only
  takes \<^verbatim>\<open>str(x)\<close>. The values modelled are None, booleans, integers and strings. A
  float argument is given by the text \<^verbatim>\<open>str\<close> yields for it: \<open>PyStr ''100.05''\<close> for
  the float 100.05. \<open>py_str\<close> is \<^verbatim>\<open>str\<close> on these values; it gives the decimal text
  of an integer of any size (the interpreter's limit on the digits of such a conversion
  is not modelled).
\<close>

datatype pyval = PyNone | PyBool bool | PyInt int | PyStr string

fun nat_digits :: "nat \<Rightarrow> string" where
  "nat_digits n = (if n < 10 then [''0123456789'' ! n]
                   else nat_digits (n div 10) @ [''0123456789'' ! (n mod 10)])"

declare nat_digits.simps [simp del]

fun py_str :: "pyval \<Rightarrow> string" where
  "py_str PyNone = ''None''"
| "py_str (PyBool b) = (if b then ''True'' else ''False'')"
| "py_str (PyInt i) = (if i < 0 then ''-'' @ nat_digits (nat (- i)) else nat_digits (nat i))"
| "py_str (PyStr s) = s"

text \<open>
  A Python float is the real number it denotes, or one of the three special values
  that \<^verbatim>\<open>float("inf")\<close>, \<^verbatim>\<open>float("-inf")\<close> and \<^verbatim>\<open>float("nan")\<close> give. Rounding to 53
  bits and overflow are not modelled. The operations are those \<open>answers_match\<close>
  uses, with the IEEE rules for the special values: every comparison with NaN is
  false, and \<^verbatim>\<open>/\<close> raises ZeroDivisionError on a zero divisor.
\<close>

datatype pyfloat = Fin real | PInf | NInf | NaN

fun f_sub :: "pyfloat \<Rightarrow> pyfloat \<Rightarrow> pyfloat" where
  "f_sub (Fin a) (Fin b) = Fin (a - b)"
| "f_sub NaN y = NaN"
| "f_sub x NaN = NaN"
| "f_sub PInf PInf = NaN"
| "f_sub NInf NInf = NaN"
| "f_sub PInf y = PInf"
| "f_sub NInf y = NInf"
| "f_sub (Fin a) PInf = NInf"
| "f_sub (Fin a) NInf = PInf"

fun f_abs :: "pyfloat \<Rightarrow> pyfloat" where
  "f_abs (Fin a) = Fin \<bar>a\<bar>"
| "f_abs PInf = PInf"
| "f_abs NInf = PInf"
| "f_abs NaN = NaN"

fun f_lt :: "pyfloat \<Rightarrow> pyfloat \<Rightarrow> bool" where
  "f_lt (Fin a) (Fin b) = (a < b)"
| "f_lt NaN y = False"
| "f_lt x NaN = False"
| "f_lt PInf y = False"
| "f_lt x NInf = False"
| "f_lt NInf y = True"
| "f_lt (Fin a) PInf = True"

fun f_le :: "pyfloat \<Rightarrow> pyfloat \<Rightarrow> bool" where
  "f_le (Fin a) (Fin b) = (a \<le> b)"
| "f_le NaN y = False"
| "f_le x NaN = False"
| "f_le NInf y = True"
| "f_le x PInf = True"
| "f_le PInf y = False"
| "f_le (Fin a) NInf = False"

text \<open>\<^verbatim>\<open>max(a, b)\<close> keeps \<open>a\<close> unless \<^verbatim>\<open>b > a\<close>.\<close>

definition f_max :: "pyfloat \<Rightarrow> pyfloat \<Rightarrow> pyfloat" where
  "f_max a b = (if f_lt a b then b else a)"

fun f_div :: "pyfloat \<Rightarrow> pyfloat \<Rightarrow> py_error + pyfloat" where
  "f_div x (Fin b) =
     (if b = 0 then Inl ZeroDivisionError
      else case x of
             Fin a \<Rightarrow> Inr (Fin (a / b))
           | PInf \<Rightarrow> Inr (if 0 < b then PInf else NInf)
           | NInf \<Rightarrow> Inr (if 0 < b then NInf else PInf)
           | NaN \<Rightarrow> Inr NaN)"
| "f_div (Fin a) y = (case y of NaN \<Rightarrow> Inr NaN | _ \<Rightarrow> Inr (Fin 0))"
| "f_div x y = Inr NaN"

text \<open>
  \<^verbatim>\<open>float(s)\<close> on a string. White space beyond ASCII counts as a blank; blanks, tabs
  and line ends are stripped at both ends (the separators 0x1C to 0x1F are not, unlike
  in \<^verbatim>\<open>str.strip\<close>); an underscore may stand only between two digits; what is left is
  an optional sign followed by \<^verbatim>\<open>inf\<close>, \<^verbatim>\<open>infinity\<close> or \<^verbatim>\<open>nan\<close> in any case, or by a
  decimal number: digits with an optional point, at least one digit, and an optional
  exponent. Anything else raises ValueError.
\<close>

definition float_isspace :: "char \<Rightarrow> bool" where
  "float_isspace c = (c \<in> set [CHR 0x09, CHR 0x0A, CHR 0x0B, CHR 0x0C, CHR 0x0D, CHR 0x20])"

definition to_ascii_space :: "char \<Rightarrow> char" where
  "to_ascii_space c = (if c = CHR 0x85 \<or> c = CHR 0xA0 then CHR 0x20 else c)"

definition is_ascii_digit :: "char \<Rightarrow> bool" where
  "is_ascii_digit c = (c \<in> set ''0123456789'')"

fun underscores_ok :: "char \<Rightarrow> string \<Rightarrow> bool" where
  "underscores_ok prev [] = (prev \<noteq> CHR ''_'')"
| "underscores_ok prev (c # cs) =
     (if c = CHR ''_'' then is_ascii_digit prev \<and> underscores_ok c cs
      else if prev = CHR ''_'' then is_ascii_digit c \<and> underscores_ok c cs
      else underscores_ok c cs)"

definition digit_value :: "char \<Rightarrow> nat" where
  "digit_value c = of_char c - 48"

definition digits_value :: "string \<Rightarrow> nat" where
  "digits_value ds = foldl (\<lambda>a c. 10 * a + digit_value c) 0 ds"

definition parse_sign :: "string \<Rightarrow> bool \<times> string" where
  "parse_sign s = (case s of
       [] \<Rightarrow> (False, [])
     | c # r \<Rightarrow> if c = CHR ''-'' then (True, r) else if c = CHR ''+'' then (False, r) else (False, s))"

definition parse_fraction :: "string \<Rightarrow> string \<times> string" where
  "parse_fraction s = (case s of
       [] \<Rightarrow> ([], [])
     | c # t \<Rightarrow> if c = CHR ''.'' then (takeWhile is_ascii_digit t, dropWhile is_ascii_digit t)
               else ([], s))"

definition parse_exponent :: "string \<Rightarrow> int option" where
  "parse_exponent s = (case s of
       [] \<Rightarrow> Some 0
     | c # t \<Rightarrow>
         if c = CHR ''e'' \<or> c = CHR ''E''
         then (let (neg, ds) = parse_sign t in
               if ds \<noteq> [] \<and> list_all is_ascii_digit ds
               then Some (if neg then - int (digits_value ds) else int (digits_value ds))
               else None)
         else None)"

definition pow10 :: "int \<Rightarrow> real" where
  "pow10 e = (if 0 \<le> e then 10 ^ nat e else 1 / 10 ^ nat (- e))"

definition parse_decimal :: "string \<Rightarrow> real option" where
  "parse_decimal s =
     (let ip = takeWhile is_ascii_digit s;
          (fp, rest) = parse_fraction (dropWhile is_ascii_digit s)
      in if ip = [] \<and> fp = [] then None
         else case parse_exponent rest of
                None \<Rightarrow> None
              | Some e \<Rightarrow> Some (real (digits_value (ip @ fp)) / 10 ^ length fp * pow10 e))"

definition py_float :: "string \<Rightarrow> py_error + pyfloat" where
  "py_float s =
     (let t = rev (dropWhile float_isspace (rev (dropWhile float_isspace (map to_ascii_space s))))
      in if t = [] \<or> \<not> underscores_ok (CHR 0x00) t
         then Inl (ValueError ''could not convert string to float'')
         else let (neg, body) = parse_sign (py_remove CHR ''_'' t) in
           if py_lower body = ''inf'' \<or> py_lower body = ''infinity''
           then Inr (if neg then NInf else PInf)
           else if py_lower body = ''nan'' then Inr NaN
           else case parse_decimal body of
                  None \<Rightarrow> Inl (ValueError ''could not convert string to float'')
                | Some r \<Rightarrow> Inr (Fin (if neg then - r else r)))"

text \<open>
  \<open>normalize_answer\<close> and \<open>answers_match\<close> return the lines they print together
  with their outcome; printing itself does not fail. \<^verbatim>\<open>except ValueError\<close> catches
  that error only; any other would go on to the caller.
\<close>

definition warning_line :: "pyval \<Rightarrow> string" where
  "warning_line x = ''Warning: Could not convert '' @ quoted (py_str x)"

definition normalize_answer :: "pyval \<Rightarrow> string list \<times> (py_error + pyfloat)" where
  "normalize_answer x =
     (case x of
        PyNone \<Rightarrow> ([], Inr (Fin 0))
      | _ \<Rightarrow>
         let x_str = py_lower (py_strip (py_str x));
             x_str = py_remove CHR ''%'' (py_remove CHR ''$'' (py_remove CHR '' '' x_str))
         in case py_float x_str of
              Inr v \<Rightarrow> ([], Inr v)
            | Inl (ValueError msg) \<Rightarrow> ([warning_line x], Inr (Fin 0))
            | Inl e \<Rightarrow> ([], Inl e))"

definition answers_match ::
  "pyval \<Rightarrow> pyval \<Rightarrow> pyfloat \<Rightarrow> pyfloat \<Rightarrow> string list \<times> (py_error + bool)" where
  "answers_match pred gold relative_tolerance absolute_tolerance =
     (let (out1, r1) = normalize_answer pred in
      case r1 of
        Inl e \<Rightarrow> (out1, Inl e)
      | Inr pred_num \<Rightarrow>
         let (out2, r2) = normalize_answer gold in
         case r2 of
           Inl e \<Rightarrow> (out1 @ out2, Inl e)
         | Inr gold_num \<Rightarrow>
            let abs_diff = f_abs (f_sub pred_num gold_num) in
            case f_div abs_diff (f_max (f_abs gold_num) (Fin (1 / 10 ^ 10))) of
              Inl e \<Rightarrow> (out1 @ out2, Inl e)
            | Inr rel_diff \<Rightarrow>
                (out1 @ out2,
                 Inr (f_le abs_diff absolute_tolerance \<or> f_le rel_diff relative_tolerance)))"

text \<open>The two tolerances of \<^verbatim>\<open>Config\<close> and their defaults, \<^verbatim>\<open>1e-3\<close> and \<^verbatim>\<open>1e-4\<close>.\<close>

record config =
  relative_tolerance :: pyfloat
  absolute_tolerance :: pyfloat

definition default_config :: config where
  "default_config = \<lparr>relative_tolerance = Fin (1 / 10 ^ 3), absolute_tolerance = Fin (1 / 10 ^ 4)\<rparr>"

section \<open>Response parsing: parse\_llm\_response\<close>



definition drop_trailing_fence :: "string \<Rightarrow> string" where
  "drop_trailing_fence t = (if py_endswith t ''```'' then slice_to_minus 3 t else t)"






section \<open>Per-turn scoring in evaluate\_dialogue\<close>





section \<open>Properties of the string built-ins\<close>

text \<open>
  Splitting never gives the empty list, no segment contains the separator, and joining
  the segments gives the string back; the segments of \<open>p_d\<close> are those of \<open>p\<close>
  followed by those of \<open>d\<close>.
\<close>

lemma py_split_not_Nil: "py_split sep s \<noteq> []"
  by (induction s) (auto split: list.splits)

lemma py_split_no_sep: "sep \<notin> set s \<Longrightarrow> py_split sep s = [s]"
  by (induction s) auto

lemma py_split_append_sep: "py_split sep (p @ sep # d) = py_split sep p @ py_split sep d"
  by (induction p) (auto split: list.splits simp: py_split_not_Nil)

lemma py_split_segments: "list_all (\<lambda>seg. sep \<notin> set seg) (py_split sep s)"
  by (induction s) (auto split: list.splits)

lemma py_join_split: "py_join [sep] (py_split sep s) = s"
proof (induction s)
  case Nil
  show ?case by simp
next
  case (Cons c cs)
  obtain w ws where ws: "py_split sep cs = w # ws"
    using py_split_not_Nil [of sep cs] by (cases "py_split sep cs") auto
  show ?case
  proof (cases "c = sep")
    case True
    with Cons ws show ?thesis by simp
  next
    case False
    with Cons ws show ?thesis by (cases ws) auto
  qed
qed

lemma py_isdigit_no_underscore: "py_isdigit d \<Longrightarrow> CHR ''_'' \<notin> set d"
  by (auto simp: py_isdigit_def py_isdigit_char_def list_all_iff)

lemma extract_dialogue_id_eq:
  "extract_dialogue_id fid =
     Inr (if py_isdigit (last (py_split CHR ''_'' fid))
          then py_join ''_'' (butlast (py_split CHR ''_'' fid)) else fid)"
  using py_split_not_Nil [of "CHR ''_''" fid]
  by (cases "py_split CHR ''_'' fid") (auto simp: extract_dialogue_id_def py_last_def Let_def)

lemma extract_dialogue_id_no_underscore:
  assumes "CHR ''_'' \<notin> set fid"
  shows "extract_dialogue_id fid = Inr (if py_isdigit fid then [] else fid)"
  using assms by (simp add: extract_dialogue_id_eq py_split_no_sep)

lemma extract_dialogue_id_last_segment:
  assumes "CHR ''_'' \<notin> set d"
  shows "extract_dialogue_id (p @ ''_'' @ d) = Inr (if py_isdigit d then p else p @ ''_'' @ d)"
proof -
  have s: "py_split CHR ''_'' (p @ ''_'' @ d) = py_split CHR ''_'' p @ [d]"
    using py_split_append_sep [of "CHR ''_''" p d] assms by (simp add: py_split_no_sep)
  show ?thesis
    unfolding extract_dialogue_id_eq s using py_join_split [of "CHR ''_''" p] by simp
qed

lemma underscore_cases:
  "CHR ''_'' \<notin> set fid \<or> (\<exists>p d. fid = p @ ''_'' @ d \<and> CHR ''_'' \<notin> set d)"
proof (cases "CHR ''_'' \<in> set fid")
  case True
  then obtain p d where "fid = p @ CHR ''_'' # d" and "CHR ''_'' \<notin> set d"
    by (meson split_list_last)
  then have "fid = p @ ''_'' @ d \<and> CHR ''_'' \<notin> set d" by simp
  then show ?thesis by blast
next
  case False
  then show ?thesis by simp
qed

section \<open>Properties of the conversation memory\<close>

text \<open>
  A new memory is valid and every call keeps it so. Each call changes the list behind
  the memory and the prompt as \<open>appended_by\<close> and \<open>prompt_step\<close> say, and the history
  is that list with the system message in front when the prompt is a non-empty string.
  A call touches no list of the store but the one behind the memory (the frame lemmas),
  and the list \<open>get_conversation_history\<close> returns is at a new address.
\<close>

lemma valid_init: "valid (memory_init sp h)"
  by (simp add: valid_def memory_init_def alloc_def)

lemma contents_init: "contents (memory_init sp h) = []"
  by (simp add: contents_def memory_init_def alloc_def)

lemma prompt_init: "system_prompt (snd (memory_init sp h)) = sp"
  by (simp add: memory_init_def alloc_def)

lemma exec_op_valid: "valid s \<Longrightarrow> valid (exec_op op s)"
  by (cases s; cases op)
     (auto simp: valid_def set_system_prompt_def add_message_def add_user_message_def
        add_assistant_message_def get_conversation_history_def clear_def alloc_def
        list_append_def list_clear_def Let_def split: option.splits)

lemma exec_op_contents:
  "valid s \<Longrightarrow> contents (exec_op op s) = (if op = Clear then [] else contents s @ appended_by op)"
  by (cases s; cases op)
     (auto simp: valid_def contents_def set_system_prompt_def add_message_def add_user_message_def
        add_assistant_message_def get_conversation_history_def clear_def alloc_def
        list_append_def list_clear_def Let_def nth_append split: option.splits)

lemma exec_op_prompt:
  "system_prompt (snd (exec_op op s)) = prompt_step op (system_prompt (snd s))"
  by (cases s; cases op)
     (auto simp: set_system_prompt_def add_message_def add_user_message_def
        add_assistant_message_def get_conversation_history_def clear_def alloc_def Let_def
      split: option.splits)

lemma run_ops_snoc: "run_ops (ops @ [op]) s = exec_op op (run_ops ops s)"
  by (simp add: run_ops_def)

lemma run_ops_valid: "valid s \<Longrightarrow> valid (run_ops ops s)"
  by (induction ops rule: rev_induct) (simp_all add: run_ops_snoc exec_op_valid, simp add: run_ops_def)

lemma since_clear_snoc:
  "since_clear (ops @ [op]) = (if op = Clear then [] else since_clear ops @ [op])"
  by (simp add: since_clear_def)

lemma run_ops_contents:
  "contents (run_ops ops (memory_init sp h)) = appended (since_clear ops)"
proof (induction ops rule: rev_induct)
  case Nil
  show ?case by (simp add: run_ops_def contents_init since_clear_def appended_def)
next
  case (snoc op ops)
  have v: "valid (run_ops ops (memory_init sp h))" by (simp add: run_ops_valid valid_init)
  show ?case
    using snoc by (simp add: run_ops_snoc exec_op_contents [OF v] since_clear_snoc appended_def)
qed

lemma run_ops_prompt:
  "system_prompt (snd (run_ops ops (memory_init sp h))) = prompt_after sp ops"
  by (induction ops rule: rev_induct)
     (simp_all add: run_ops_snoc exec_op_prompt prompt_after_def prompt_init, simp add: run_ops_def prompt_init)

lemma history_of_eq:
  "valid s \<Longrightarrow> history_of s =
     (case system_prompt (snd s) of
        None \<Rightarrow> contents s
      | Some p \<Rightarrow> if p \<noteq> [] then \<lparr>role = ''system'', content = p\<rparr> # contents s else contents s)"
  by (cases s)
     (auto simp: history_of_def get_conversation_history_def alloc_def list_append_def Let_def
        valid_def contents_def nth_append split: option.splits)

lemma length_appended: "length (appended ops) = length (filter appends ops)"
proof (induction ops)
  case Nil
  show ?case by (simp add: appended_def)
next
  case (Cons op ops)
  then show ?case by (cases op) (simp_all add: appended_def)
qed

lemma since_clear_no_clear: "list_all (\<lambda>op. op \<noteq> Clear) ops \<Longrightarrow> since_clear ops = ops"
proof -
  assume "list_all (\<lambda>op. op \<noteq> Clear) ops"
  then have "takeWhile (\<lambda>op. op \<noteq> Clear) (rev ops) = rev ops"
    by (simp add: list_all_iff)
  then show ?thesis unfolding since_clear_def by (simp only: rev_rev_ident)
qed

lemma exec_op_frame:
  assumes "valid s" and "a < length (fst s)" and "a \<noteq> messages (snd s)"
  shows "fst (exec_op op s) ! a = fst s ! a \<and> a < length (fst (exec_op op s))
         \<and> messages (snd (exec_op op s)) = messages (snd s)"
  using assms
  by (cases s; cases op)
     (auto simp: valid_def set_system_prompt_def add_message_def add_user_message_def
        add_assistant_message_def get_conversation_history_def clear_def alloc_def
        list_append_def list_clear_def Let_def nth_append split: option.splits)

lemma run_ops_frame:
  assumes "valid s" and "a < length (fst s)" and "a \<noteq> messages (snd s)"
  shows "fst (run_ops ops s) ! a = fst s ! a \<and> a < length (fst (run_ops ops s))
         \<and> messages (snd (run_ops ops s)) = messages (snd s)"
proof (induction ops rule: rev_induct)
  case Nil
  show ?case using assms by (simp add: run_ops_def)
next
  case (snoc op ops)
  have v: "valid (run_ops ops s)" using assms(1) by (rule run_ops_valid)
  from snoc have a: "a < length (fst (run_ops ops s))"
    and n: "a \<noteq> messages (snd (run_ops ops s))" using assms(3) by simp_all
  from exec_op_frame [OF v a n, of op] snoc show ?case by (simp add: run_ops_snoc)
qed

lemma get_conversation_history_fresh:
  assumes "valid s"
  shows "length (fst s) \<le> fst (get_conversation_history s)
     \<and> fst (get_conversation_history s) < length (fst (snd (get_conversation_history s)))
     \<and> fst (get_conversation_history s) \<noteq> messages (snd (snd (get_conversation_history s)))
     \<and> valid (snd (get_conversation_history s))
     \<and> fst s ! messages (snd s) = fst (snd (get_conversation_history s)) ! messages (snd s)
     \<and> snd (snd (get_conversation_history s)) = snd s"
  using assms
  by (cases s)
     (auto simp: valid_def get_conversation_history_def alloc_def list_append_def Let_def
        nth_append split: option.splits)


lemmas memory_defs = run_ops_def memory_init_def alloc_def set_system_prompt_def add_message_def
  add_user_message_def add_assistant_message_def get_conversation_history_def clear_def
  list_append_def list_clear_def memory_len_def history_of_def contents_def valid_def

section \<open>Properties of the answer comparison\<close>














lemmas float_defs = py_float_def float_isspace_def to_ascii_space_def is_ascii_digit_def
  digit_value_def digits_value_def parse_sign_def parse_fraction_def parse_exponent_def
  pow10_def parse_decimal_def py_remove_def py_lower_def py_lower_char_def upper_chars_def
  lower_chars_def py_strip_def py_isspace_def






lemma norm_100: "normalize_answer (PyStr ''100.0'') = ([], Inr (Fin 100))"
  by (simp add: normalize_answer_def float_defs)

lemma norm_10005: "normalize_answer (PyStr ''100.05'') = ([], Inr (Fin (2001 / 20)))"
  by (simp add: normalize_answer_def float_defs)

text \<open>
  The verdict on 100.0 against 100.05 does not hang on the last bits of the floats:
  with both values moved by up to 1e-6 the relative difference stays below 6e-4, well
  within the relative tolerance 1e-3.
\<close>

lemma relative_margin:
  fixes p g :: real
  assumes "\<bar>p - 100\<bar> \<le> 1 / 10 ^ 6" and "\<bar>g - 2001 / 20\<bar> \<le> 1 / 10 ^ 6"
  shows "\<bar>p - g\<bar> / max \<bar>g\<bar> (1 / 10 ^ 10) \<le> 6 / 10 ^ 4"
proof -
  have e: "(1::real) / 10 ^ 6 \<le> 1 / 1000" by simp
  have g: "100 \<le> g" using assms(2) e by linarith
  then have m: "max \<bar>g\<bar> (1 / 10 ^ 10) = g" by (simp add: max_def)
  have d: "\<bar>p - g\<bar> \<le> 6 / 100" using assms e by linarith
  have "\<bar>p - g\<bar> / g \<le> (6 / 100) / 100"
    using d g by (intro frac_le) simp_all
  then show ?thesis unfolding m by simp
qed

section \<open>Properties of the response parser\<close>




lemma drop_trailing_fence_append: "drop_trailing_fence (v @ ''```'') = v"
  by (simp add: drop_trailing_fence_def py_endswith_def slice_to_minus_def)





section \<open>Properties of the scoring loop\<close>




section \<open>Claims\<close>

subsection \<open>C1: the worked example of answers\_match\<close>

text \<open>
  C1 (as amended). \<open>answers_match\<close> applied to the prediction 100.0 and the gold
  answer 100.05 with the relative tolerance 1e-3 and the absolute tolerance 1e-4
  returns true: the two normalise to 100 and 2001/20, the absolute difference 1/20 is
  above the absolute tolerance, but the relative difference 1/2001 is within the
  relative tolerance, and one test suffices. Nothing is printed.
\<close>

theorem answers_match_example_true:
  "answers_match (PyStr ''100.0'') (PyStr ''100.05'')
       (relative_tolerance default_config) (absolute_tolerance default_config) = ([], Inr True)
   \<and> snd (normalize_answer (PyStr ''100.0'')) = Inr (Fin 100)
   \<and> snd (normalize_answer (PyStr ''100.05'')) = Inr (Fin (2001 / 20))
   \<and> \<not> f_le (f_abs (f_sub (Fin 100) (Fin (2001 / 20)))) (absolute_tolerance default_config)
   \<and> f_div (f_abs (f_sub (Fin 100) (Fin (2001 / 20)))) (f_max (f_abs (Fin (2001 / 20))) (Fin (1 / 10 ^ 10)))
       = Inr (Fin (1 / 2001))
   \<and> f_le (Fin (1 / 2001)) (relative_tolerance default_config)"
  by (simp add: answers_match_def norm_100 norm_10005 default_config_def f_max_def)

theorem answers_match_example_true_witness:
  "fst (answers_match (PyStr ''100.0'') (PyStr ''100.05'') (Fin (1 / 10 ^ 3)) (Fin (1 / 10 ^ 4))) = []
   \<and> snd (answers_match (PyStr ''100.0'') (PyStr ''100.05'') (Fin (1 / 10 ^ 3)) (Fin (1 / 10 ^ 4)))
       = Inr True"
  using answers_match_example_true by (simp add: default_config_def)

text \<open>The claim as stated, that this call returns false, does not hold.\<close>

theorem answers_match_example_not_false:
  "snd (answers_match (PyStr ''100.0'') (PyStr ''100.05'') (Fin (1 / 10 ^ 3)) (Fin (1 / 10 ^ 4)))
     \<noteq> Inr False"
  by (simp add: answers_match_def norm_100 norm_10005 f_max_def)

subsection \<open>C2: the acceptance rule of answers\_match\<close>



subsection \<open>C3: what the length counts\<close>

text \<open>
  C3 (as amended). After every sequence of calls on a new memory, \<open>memory_len\<close> is
  the number of calls since the last \<open>Clear\<close> that appended a message, whatever the
  role: a message appended through \<open>add_message\<close> with the role system counts as
  those of the user and the assistant do. The system prompt, the calls rejected for
  their role and the reads of the history do not count.
\<close>

theorem memory_len_counts_appended:
  "memory_len (run_ops ops (memory_init sp h0)) = length (filter appends (since_clear ops))"
proof -
  have "memory_len (run_ops ops (memory_init sp h0)) = length (contents (run_ops ops (memory_init sp h0)))"
    by (cases "run_ops ops (memory_init sp h0)") (simp add: memory_len_def contents_def)
  then show ?thesis by (simp add: run_ops_contents length_appended)
qed

theorem memory_len_counts_appended_witness:
  "memory_len (run_ops [SetSystemPrompt ''ctx'', AddUserMessage ''q1'', AddMessage ''tool'' ''x'',
       Clear, AddMessage ''system'' ''note'', AddAssistantMessage ''a1'', GetConversationHistory]
     (memory_init None [])) = 2"
  using memory_len_counts_appended [of "[SetSystemPrompt ''ctx'', AddUserMessage ''q1'',
       AddMessage ''tool'' ''x'', Clear, AddMessage ''system'' ''note'', AddAssistantMessage ''a1'',
       GetConversationHistory]" None "[]"]
  by (simp add: since_clear_def)

text \<open>
  With the count restricted to the roles user and assistant, as the claim is stated,
  the property fails: one appended message with the role system gives the length 1.
\<close>

theorem system_role_message_counted:
  "memory_len (run_ops [AddMessage ''system'' ''note''] (memory_init None [])) = 1
   \<and> length (filter appends_non_system [AddMessage ''system'' ''note'']) = 0"
  by (simp add: memory_defs)

subsection \<open>C4: add\_message and the role\<close>

text \<open>
  C4. On every valid state and for every role outside user, assistant and system,
  \<open>add_message\<close> fails with the invalid-role error and the state after the call is
  the state before it, so the history and the length read the same; for each of the
  three roles it succeeds and appends exactly the one message: the list behind the
  memory and the history are the old ones followed by it, the length is one more and
  the system prompt is untouched.
\<close>

theorem add_message_roles:
  "valid s \<longrightarrow>
     (r \<notin> set [''user'', ''assistant'', ''system''] \<longrightarrow>
        add_message r c s = (Inl (ValueError (invalid_role_message r)), s)
        \<and> history_of (snd (add_message r c s)) = history_of s
        \<and> memory_len (snd (add_message r c s)) = memory_len s)
   \<and> (r \<in> set [''user'', ''assistant'', ''system''] \<longrightarrow>
        fst (add_message r c s) = Inr ()
        \<and> contents (snd (add_message r c s)) = contents s @ [\<lparr>role = r, content = c\<rparr>]
        \<and> history_of (snd (add_message r c s)) = history_of s @ [\<lparr>role = r, content = c\<rparr>]
        \<and> memory_len (snd (add_message r c s)) = memory_len s + 1
        \<and> system_prompt (snd (snd (add_message r c s))) = system_prompt (snd s))"
proof (intro impI conjI)
  assume v: "valid s" and r: "r \<notin> set [''user'', ''assistant'', ''system'']"
  show e: "add_message r c s = (Inl (ValueError (invalid_role_message r)), s)"
    using r by (cases s) (simp add: add_message_def)
  show "history_of (snd (add_message r c s)) = history_of s" by (simp add: e)
  show "memory_len (snd (add_message r c s)) = memory_len s" by (simp add: e)
next
  assume v: "valid s" and r: "r \<in> set [''user'', ''assistant'', ''system'']"
  have x: "snd (add_message r c s) = exec_op (AddMessage r c) s" by simp
  have v': "valid (snd (add_message r c s))" unfolding x using v by (rule exec_op_valid)
  show "fst (add_message r c s) = Inr ()"
    using r by (cases s) (auto simp: add_message_def)
  show c: "contents (snd (add_message r c s)) = contents s @ [\<lparr>role = r, content = c\<rparr>]"
    unfolding x using exec_op_contents [OF v, of "AddMessage r c"] r by auto
  show p: "system_prompt (snd (snd (add_message r c s))) = system_prompt (snd s)"
    using exec_op_prompt [of "AddMessage r c" s] by simp
  show "history_of (snd (add_message r c s)) = history_of s @ [\<lparr>role = r, content = c\<rparr>]"
    by (simp add: history_of_eq [OF v] history_of_eq [OF v'] c p split: option.splits)
  show "memory_len (snd (add_message r c s)) = memory_len s + 1"
    using c by (cases s; cases "snd (add_message r c s)") (simp add: memory_len_def contents_def)
qed

theorem add_message_roles_witness:
  "valid (memory_init (Some ''ctx'') [])
   \<and> ''tool'' \<notin> set [''user'', ''assistant'', ''system'']
   \<and> fst (add_message ''tool'' ''x'' (memory_init (Some ''ctx'') []))
       = Inl (ValueError (invalid_role_message ''tool''))
   \<and> snd (add_message ''tool'' ''x'' (memory_init (Some ''ctx'') [])) = memory_init (Some ''ctx'') []
   \<and> ''user'' \<in> set [''user'', ''assistant'', ''system'']
   \<and> history_of (snd (add_message ''user'' ''hi'' (memory_init (Some ''ctx'') [])))
       = [\<lparr>role = ''system'', content = ''ctx''\<rparr>, \<lparr>role = ''user'', content = ''hi''\<rparr>]"
proof -
  have v: "valid (memory_init (Some ''ctx'') [])" by (rule valid_init)
  have h: "history_of (memory_init (Some ''ctx'') []) = [\<lparr>role = ''system'', content = ''ctx''\<rparr>]"
    by (simp add: memory_defs)
  from add_message_roles [of "memory_init (Some ''ctx'') []" "''tool''" "''x''"]
    add_message_roles [of "memory_init (Some ''ctx'') []" "''user''" "''hi''"] v h
  show ?thesis by simp
qed

subsection \<open>C5: the system prompt comes first, the history is a snapshot\<close>

text \<open>
  C5 (as amended). Take any sequence of calls without \<open>Clear\<close> on a new memory, in
  any order of prompt settings and added messages, and let the prompt in force after
  them be a non-empty string \<open>p\<close>. Then the list \<open>get_conversation_history\<close> returns
  is the system message with content \<open>p\<close> followed by all appended messages in the
  order of their calls; the list is a new object (its address is none of the store
  before the call); and after any later calls on the memory, \<open>Clear\<close> included, it
  still holds the same messages.
\<close>

theorem history_prompt_first_snapshot:
  "list_all (\<lambda>op. op \<noteq> Clear) ops \<and> prompt_after sp ops = Some p \<and> p \<noteq> [] \<longrightarrow>
     (let s = run_ops ops (memory_init sp h0);
          a = fst (get_conversation_history s);
          s1 = snd (get_conversation_history s)
      in fst s1 ! a = \<lparr>role = ''system'', content = p\<rparr> # appended ops
         \<and> length (fst s) \<le> a
         \<and> fst (run_ops later s1) ! a = fst s1 ! a)"
proof (intro impI)
  assume h: "list_all (\<lambda>op. op \<noteq> Clear) ops \<and> prompt_after sp ops = Some p \<and> p \<noteq> []"
  define s where "s = run_ops ops (memory_init sp h0)"
  have v: "valid s" unfolding s_def by (simp add: run_ops_valid valid_init)
  have c: "contents s = appended ops"
    unfolding s_def using h by (simp add: run_ops_contents since_clear_no_clear)
  have p: "system_prompt (snd s) = Some p" unfolding s_def using h by (simp add: run_ops_prompt)
  have "history_of s = \<lparr>role = ''system'', content = p\<rparr> # appended ops"
    using h by (simp add: history_of_eq [OF v] p c)
  then have 1: "fst (snd (get_conversation_history s)) ! fst (get_conversation_history s)
      = \<lparr>role = ''system'', content = p\<rparr> # appended ops"
    by (simp add: history_of_def split: prod.splits)
  note f = get_conversation_history_fresh [OF v]
  have 3: "fst (run_ops later (snd (get_conversation_history s))) ! fst (get_conversation_history s)
      = fst (snd (get_conversation_history s)) ! fst (get_conversation_history s)"
  proof -
    from f have f1: "valid (snd (get_conversation_history s))"
      and f2: "fst (get_conversation_history s) < length (fst (snd (get_conversation_history s)))"
      and f3: "fst (get_conversation_history s) \<noteq> messages (snd (snd (get_conversation_history s)))"
      by blast+
    from run_ops_frame [OF f1 f2 f3, of later] show ?thesis by blast
  qed
  show "let s = run_ops ops (memory_init sp h0);
          a = fst (get_conversation_history s);
          s1 = snd (get_conversation_history s)
      in fst s1 ! a = \<lparr>role = ''system'', content = p\<rparr> # appended ops
         \<and> length (fst s) \<le> a
         \<and> fst (run_ops later s1) ! a = fst s1 ! a"
    using 1 3 f unfolding s_def [symmetric] by (simp add: Let_def)
qed

theorem history_prompt_first_snapshot_witness:
  "list_all (\<lambda>op. op \<noteq> Clear) [AddUserMessage ''q1'', SetSystemPrompt ''ctx'', AddAssistantMessage ''a1'']
   \<and> prompt_after None [AddUserMessage ''q1'', SetSystemPrompt ''ctx'', AddAssistantMessage ''a1''] = Some ''ctx''
   \<and> ''ctx'' \<noteq> []
   \<and> fst (snd (get_conversation_history
         (run_ops [AddUserMessage ''q1'', SetSystemPrompt ''ctx'', AddAssistantMessage ''a1'']
            (memory_init None []))))
       ! fst (get_conversation_history
         (run_ops [AddUserMessage ''q1'', SetSystemPrompt ''ctx'', AddAssistantMessage ''a1'']
            (memory_init None [])))
     = [\<lparr>role = ''system'', content = ''ctx''\<rparr>, \<lparr>role = ''user'', content = ''q1''\<rparr>,
        \<lparr>role = ''assistant'', content = ''a1''\<rparr>]
   \<and> fst (run_ops [AddUserMessage ''q2'', Clear]
          (snd (get_conversation_history
            (run_ops [AddUserMessage ''q1'', SetSystemPrompt ''ctx'', AddAssistantMessage ''a1'']
               (memory_init None [])))))
       ! fst (get_conversation_history
         (run_ops [AddUserMessage ''q1'', SetSystemPrompt ''ctx'', AddAssistantMessage ''a1'']
            (memory_init None [])))
     = [\<lparr>role = ''system'', content = ''ctx''\<rparr>, \<lparr>role = ''user'', content = ''q1''\<rparr>,
        \<lparr>role = ''assistant'', content = ''a1''\<rparr>]
   \<and> contents (run_ops [AddUserMessage ''q2'', Clear]
          (snd (get_conversation_history
            (run_ops [AddUserMessage ''q1'', SetSystemPrompt ''ctx'', AddAssistantMessage ''a1'']
               (memory_init None []))))) = []"
proof -
  have a: "list_all (\<lambda>op. op \<noteq> Clear) [AddUserMessage ''q1'', SetSystemPrompt ''ctx'', AddAssistantMessage ''a1'']
     \<and> prompt_after None [AddUserMessage ''q1'', SetSystemPrompt ''ctx'', AddAssistantMessage ''a1''] = Some ''ctx''
     \<and> ''ctx'' \<noteq> []"
    by (simp add: prompt_after_def)
  have c: "contents (run_ops [AddUserMessage ''q2'', Clear]
          (snd (get_conversation_history
            (run_ops [AddUserMessage ''q1'', SetSystemPrompt ''ctx'', AddAssistantMessage ''a1'']
               (memory_init None []))))) = []"
    by (simp add: memory_defs)
  note t = history_prompt_first_snapshot [where ops = "[AddUserMessage ''q1'', SetSystemPrompt ''ctx'',
      AddAssistantMessage ''a1'']" and sp = None and p = "''ctx''" and ?h0.0 = "[]"
      and later = "[AddUserMessage ''q2'', Clear]"]
  from t [THEN mp, OF a] a c show ?thesis by (simp add: Let_def appended_def)
qed

text \<open>
  For a prompt set to the empty string the first part fails, so the claim as stated
  (a prompt is set) does not hold: the history then starts with the first message.
\<close>

theorem empty_prompt_not_first:
  "prompt_after None [SetSystemPrompt '''', AddUserMessage ''hi''] = Some ''''
   \<and> history_of (run_ops [SetSystemPrompt '''', AddUserMessage ''hi''] (memory_init None []))
       = [\<lparr>role = ''user'', content = ''hi''\<rparr>]
   \<and> history_of (run_ops [SetSystemPrompt '''', AddUserMessage ''hi''] (memory_init None []))
       \<noteq> \<lparr>role = ''system'', content = ''''\<rparr> # appended [SetSystemPrompt '''', AddUserMessage ''hi'']"
  by (simp add: memory_defs prompt_after_def appended_def)

subsection \<open>C6: fences and the parsing error\<close>




subsection \<open>C7: normalize\_answer never raises\<close>



subsection \<open>C8: the numeric suffix of a dialogue id\<close>

text \<open>
  C8. For every identifier, \<open>extract_dialogue_id\<close> splits on the underscore and looks
  at the last segment: when it consists entirely of digits (a non-empty run of
  characters that \<^verbatim>\<open>str.isdigit\<close> accepts) the result is the other segments joined by
  underscores, otherwise the identifier itself; the call never raises. The segments
  are the pieces between the underscores: joined they give the identifier back and
  none contains an underscore. Every identifier has no underscore or is \<open>p_d\<close> with
  no underscore in \<open>d\<close>, and in these terms: \<open>p_d\<close> gives \<open>p\<close> when \<open>d\<close> is all
  digits and stays as it is otherwise; an identifier without underscore stays as it
  is unless it is all digits, when nothing is left of it. So \<open>abc_3\<close> gives \<open>abc\<close>
  and \<open>abc_def\<close> gives \<open>abc_def\<close>.
\<close>

theorem extract_dialogue_id_numeric_suffix:
  "extract_dialogue_id fid =
     Inr (if py_isdigit (last (py_split CHR ''_'' fid))
          then py_join ''_'' (butlast (py_split CHR ''_'' fid)) else fid)
   \<and> py_join ''_'' (py_split CHR ''_'' fid) = fid
   \<and> list_all (\<lambda>seg. CHR ''_'' \<notin> set seg) (py_split CHR ''_'' fid)
   \<and> (py_isdigit d \<longrightarrow> extract_dialogue_id (p @ ''_'' @ d) = Inr p)
   \<and> (CHR ''_'' \<notin> set d \<and> \<not> py_isdigit d \<longrightarrow>
        extract_dialogue_id (p @ ''_'' @ d) = Inr (p @ ''_'' @ d))
   \<and> (CHR ''_'' \<notin> set fid \<and> \<not> py_isdigit fid \<longrightarrow> extract_dialogue_id fid = Inr fid)
   \<and> (py_isdigit fid \<longrightarrow> extract_dialogue_id fid = Inr [])
   \<and> (CHR ''_'' \<notin> set fid \<or> (\<exists>p d. fid = p @ ''_'' @ d \<and> CHR ''_'' \<notin> set d))
   \<and> extract_dialogue_id ''abc_3'' = Inr ''abc''
   \<and> extract_dialogue_id ''abc_def'' = Inr ''abc_def''"
proof -
  have ex1: "extract_dialogue_id ''abc_3'' = Inr ''abc''"
    using extract_dialogue_id_last_segment [of "''3''" "''abc''"]
    by (simp add: py_isdigit_def py_isdigit_char_def)
  have ex2: "extract_dialogue_id ''abc_def'' = Inr ''abc_def''"
    using extract_dialogue_id_last_segment [of "''def''" "''abc''"]
    by (simp add: py_isdigit_def py_isdigit_char_def)
  have 4: "py_isdigit d \<longrightarrow> extract_dialogue_id (p @ ''_'' @ d) = Inr p"
    using extract_dialogue_id_last_segment [of d p] py_isdigit_no_underscore [of d] by simp
  have 5: "CHR ''_'' \<notin> set d \<and> \<not> py_isdigit d \<longrightarrow>
        extract_dialogue_id (p @ ''_'' @ d) = Inr (p @ ''_'' @ d)"
    using extract_dialogue_id_last_segment [of d p] by simp
  have 6: "CHR ''_'' \<notin> set fid \<and> \<not> py_isdigit fid \<longrightarrow> extract_dialogue_id fid = Inr fid"
    using extract_dialogue_id_no_underscore [of fid] by simp
  have 7: "py_isdigit fid \<longrightarrow> extract_dialogue_id fid = Inr []"
    using extract_dialogue_id_no_underscore [of fid] py_isdigit_no_underscore [of fid] by simp
  from extract_dialogue_id_eq [of fid] py_join_split [of "CHR ''_''" fid]
    py_split_segments [of "CHR ''_''" fid] 4 5 6 7 underscore_cases [of fid] ex1 ex2
  show ?thesis by simp
qed

theorem extract_dialogue_id_numeric_suffix_witness:
  "py_isdigit ''10'' \<and> extract_dialogue_id ''dialogue_1_10'' = Inr ''dialogue_1''
   \<and> CHR ''_'' \<notin> set ''x7'' \<and> \<not> py_isdigit ''x7''
   \<and> extract_dialogue_id ''dialogue_1_x7'' = Inr ''dialogue_1_x7''
   \<and> py_isdigit ''2024'' \<and> extract_dialogue_id ''2024'' = Inr ''''
   \<and> CHR ''_'' \<notin> set ''intro'' \<and> \<not> py_isdigit ''intro''
   \<and> extract_dialogue_id ''intro'' = Inr ''intro''"
proof -
  have d: "py_isdigit ''10''" and n: "CHR ''_'' \<notin> set ''x7'' \<and> \<not> py_isdigit ''x7''"
    and y: "py_isdigit ''2024''" and i: "CHR ''_'' \<notin> set ''intro'' \<and> \<not> py_isdigit ''intro''"
    by (simp_all add: py_isdigit_def py_isdigit_char_def)
  note a = extract_dialogue_id_numeric_suffix [where fid = "''2024''" and d = "''10''"
      and p = "''dialogue_1''"]
  note b = extract_dialogue_id_numeric_suffix [where fid = "''intro''" and d = "''x7''"
      and p = "''dialogue_1''"]
  from a have 1: "extract_dialogue_id (''dialogue_1'' @ ''_'' @ ''10'') = Inr ''dialogue_1''"
    using d by blast
  from b have 2: "extract_dialogue_id (''dialogue_1'' @ ''_'' @ ''x7'') = Inr (''dialogue_1'' @ ''_'' @ ''x7'')"
    using n by blast
  from a have 3: "extract_dialogue_id ''2024'' = Inr []" using y by blast
  from b have 4: "extract_dialogue_id ''intro'' = Inr ''intro''" using i by blast
  from 1 2 3 4 d n y i show ?thesis by simp
qed

subsection \<open>C9: an empty system prompt is left out\<close>



subsection \<open>C10: a response without an answer\<close>




end
